theory Spec2Isabelle
  imports Main
begin

section \<open>Results, errors and the process environment\<close>

text \<open>
  Every Go function of the two packages returns either a value or an \<open>error\<close>; one
  of them can also panic. An outcome is a sum: \<open>Inr\<close> carries the value, \<open>Inl\<close> the
  failure, and a failure is a returned error or a run-time panic. A panic unwinds
  through the callers like a returned error does, so the same case split propagates both.
\<close>

datatype error =
    ErrAlreadyRunning
  | ErrNotFound string
  | ErrReadStorage
  | ErrUnmarshalStorage
  | ErrWriteStorage
  | ErrGetwd
  | ErrSourceMissing string
  | ErrSourceNotDir
  | ErrNameEmpty
  | ErrReadManifest
  | ErrParseManifest

datatype failure = Err error | Panic

type_synonym 'a result = "failure + 'a"

text \<open>
  What \<open>os.Stat\<close> can answer for a path: the path does not exist
  (\<open>os.IsNotExist\<close> holds of the error), another error (permission denied, a
  component that is not a directory, ...), or a file-info value of which only
  \<open>Mode().IsDir()\<close> is read.
\<close>

datatype stat_result = StatNotExist | StatFailed | StatInfo bool

section \<open>Package model: the manifest\<close>

record Deployment =
  Name :: string
  Container :: string
  Image :: string
  Command :: "string list"
  Args :: "string list"

record Swap =
  Deployment :: Deployment

record Mount =
  Source :: string
  Target :: string

record Dev =
  Swap :: Swap
  Mount :: Mount
  Scripts :: "string \<rightharpoonup> string"

text \<open>
  The YAML decoder is a library outside the repository. A manifest's bytes are modelled
  by what the decoder makes of them: they do not parse, or they are a document in which
  \<open>mount.source\<close> and \<open>mount.target\<close> are present or absent (an absent key leaves
  the value that \<open>loadDev\<close> put in the struct before decoding; for the other fields
  that value is the zero value, so the document carries them directly).
\<close>

record dev_doc =
  doc_deployment :: Deployment
  doc_source :: "string option"
  doc_target :: "string option"
  doc_scripts :: "string \<rightharpoonup> string"

datatype manifest_bytes = BadYaml | Yaml dev_doc

section \<open>Package storage: the registry\<close>

record Service =
  Folder :: string
  Syncthing :: string

text \<open>
  A Go map value is nil or a map. \<open>None\<close> is the nil map: it reads as a map with no
  entries, \<open>delete\<close> on it does nothing, and an assignment to one of its entries
  panics.
\<close>

record Storage =
  path :: string
  Version :: string
  Services :: "(string \<rightharpoonup> Service) option"

definition entries :: "Storage \<Rightarrow> string \<rightharpoonup> Service" where
  "entries s = (case Services s of None \<Rightarrow> Map.empty | Some m \<Rightarrow> m)"

text \<open>
  The state file as the YAML encoder (yaml.v2) writes it and the decoder reads it. Both
  struct types tag every exported field \<open>omitempty\<close>: an empty string is left out of
  the document, so each string key of the document is optional (a key with the value
  null decodes to the empty string, like a key that holds it). The unexported field
  \<open>path\<close> is never written.

  The \<open>services\<close> key is null, or a mapping. Inside the mapping the decoder treats
  one key apart: the plain, unquoted scalar \<open><<\<close> is YAML's merge key, whose value
  is not stored as an entry but decoded into the map itself. \<open>doc_entries\<close> are the
  ordinary keys of the mapping (the quoted key \<open>"<<"\<close> among them), and
  \<open>doc_merge\<close> is the value under the plain merge key when the mapping has one; of
  such values the model covers those shaped like a \<open>Service\<close>, which is what the
  encoder writes there. An empty map is left out by the encoder; \<open>load\<close> decodes into
  a struct whose map is empty and not nil, where a missing \<open>services\<close> key and a
  mapping with no keys give the same result, so a mapping with no keys stands for both.
\<close>

datatype service_doc = ServiceDoc (doc_folder: "string option") (doc_syncthing: "string option")

datatype services_doc =
    NullServices
  | ServicesMap (doc_entries: "string \<rightharpoonup> service_doc") (doc_merge: "service_doc option")

datatype storage_doc =
  StorageDoc (doc_version: "string option") (doc_services: services_doc)

text \<open>
  A state file is absent, present but unreadable, readable with bytes the decoder
  rejects, or readable with a document.
\<close>

datatype state_file = Absent | Unreadable | Malformed | Content storage_doc

text \<open>
  The process environment the two packages read and write: the \<open>HOME\<close> variable
  (\<open>os.Getenv\<close> gives the empty string when it is unset), the working directory
  (\<open>None\<close> when \<open>os.Getwd\<close> fails), \<open>os.Stat\<close> on the path strings handed to it
  (a relative string is seen from the working directory), the manifests
  (\<open>None\<close> when \<open>ioutil.ReadFile\<close> fails), the package variable \<open>stPath\<close> set once
  by \<open>init\<close>, the state files by path, and whether \<open>ioutil.WriteFile\<close> succeeds on
  a path. A write that fails is modelled as one that could not open the file: it
  leaves the files as they were.
\<close>

record world =
  HOME :: string
  cwd :: "string option"
  stat :: "string \<Rightarrow> stat_result"
  readFile :: "string \<Rightarrow> manifest_bytes option"
  stPath :: string
  files :: "string \<Rightarrow> state_file"
  write_ok :: "string \<Rightarrow> bool"

section \<open>Go's slash-separated paths\<close>

text \<open>
  \<open>path.Clean\<close>, \<open>path.Dir\<close>, \<open>path.Join\<close> and, on Unix,
  \<open>filepath.IsAbs\<close> and \<open>filepath.Join\<close> of Go's standard library. \<open>Clean\<close>
  scans the string one path element at a time: an empty element and \<open>.\<close> are
  dropped, \<open>..\<close> removes the last element written when there is one that is not
  itself \<open>..\<close>, is dropped at the root, and is kept otherwise; any other element is
  written. The model works on the list of elements between the slashes; \<open>out\<close> is
  the output so far, last element first.
\<close>

definition IsAbs :: "string \<Rightarrow> bool" where
  "IsAbs p = (case p of [] \<Rightarrow> False | c # _ \<Rightarrow> c = CHR ''/'')"

definition HasPrefix :: "string \<Rightarrow> string \<Rightarrow> bool" where
  "HasPrefix s pre = (take (length pre) s = pre)"

fun elements :: "string \<Rightarrow> string list" where
  "elements [] = [[]]"
| "elements (c # cs) =
     (if c = CHR ''/'' then [] # elements cs
      else (case elements cs of [] \<Rightarrow> [[c]] | e # es \<Rightarrow> (c # e) # es))"

fun joinSlash :: "string list \<Rightarrow> string" where
  "joinSlash [] = []"
| "joinSlash [e] = e"
| "joinSlash (e # es) = e @ ''/'' @ joinSlash es"

fun cleanElements :: "bool \<Rightarrow> string list \<Rightarrow> string list \<Rightarrow> string list" where
  "cleanElements rooted out [] = rev out"
| "cleanElements rooted out (e # es) =
     (if e = [] \<or> e = ''.'' then cleanElements rooted out es
      else if e = ''..'' then
        (case out of
           e' # out' \<Rightarrow>
             if e' \<noteq> ''..'' then cleanElements rooted out' es
             else if \<not> rooted then cleanElements rooted (''..'' # out) es
             else cleanElements rooted out es
         | [] \<Rightarrow>
             if \<not> rooted then cleanElements rooted [''..''] es
             else cleanElements rooted [] es)
      else cleanElements rooted (e # out) es)"

definition Clean :: "string \<Rightarrow> string" where
  "Clean p =
     (if p = [] then ''.''
      else let rooted = IsAbs p;
               out = joinSlash (cleanElements rooted [] (elements p))
           in if rooted then CHR ''/'' # out
              else if out = [] then ''.'' else out)"

text \<open>\<open>Dir\<close> cleans what stands before the last slash, the slash included.\<close>

definition Dir :: "string \<Rightarrow> string" where
  "Dir p = Clean (rev (dropWhile (\<lambda>c. c \<noteq> CHR ''/'') (rev p)))"

text \<open>
  \<open>Join\<close> starts at the first non-empty element, puts a slash between it and each
  element after it, and cleans the result; with no non-empty element it is empty.
\<close>

definition Join :: "string list \<Rightarrow> string" where
  "Join elem =
     (case dropWhile (\<lambda>e. e = []) elem of
        [] \<Rightarrow> []
      | e # es \<Rightarrow> Clean (joinSlash (e # es)))"

section \<open>Package model: operations\<close>

text \<open>
  \<open>validate\<close> reads \<open>os.Stat\<close> of the source as the struct holds it. The first
  test returns only when the error is a non-existence; after any other error the
  file-info is nil and \<open>file.Mode()\<close> dereferences it.
\<close>

definition validate :: "world \<Rightarrow> Dev \<Rightarrow> unit result" where
  "validate w dev =
     (case stat w (Source (Mount dev)) of
        StatNotExist \<Rightarrow> Inl (Err (ErrSourceMissing (Source (Mount dev))))
      | StatFailed \<Rightarrow> Inl Panic
      | StatInfo isDir \<Rightarrow>
          if \<not> isDir then Inl (Err ErrSourceNotDir)
          else if Name (Deployment (Swap dev)) = [] then Inl (Err ErrNameEmpty)
          else Inr ())"

definition loadDev :: "world \<Rightarrow> manifest_bytes \<Rightarrow> Dev result" where
  "loadDev w b =
     (case b of
        BadYaml \<Rightarrow> Inl (Err ErrParseManifest)
      | Yaml d \<Rightarrow>
          let src = (case doc_source d of None \<Rightarrow> ''.'' | Some s \<Rightarrow> s);
              tgt = (case doc_target d of None \<Rightarrow> ''/src'' | Some t \<Rightarrow> t);
              dev = \<lparr>Swap = \<lparr>Deployment = doc_deployment d\<rparr>,
                     Mount = \<lparr>Source = src, Target = tgt\<rparr>,
                     Scripts = doc_scripts d\<rparr>
          in if HasPrefix src ''~/''
             then Inr (dev\<lparr>Mount := \<lparr>Source = Join [HOME w, drop 2 src], Target = tgt\<rparr>\<rparr>)
             else Inr dev)"

text \<open>The method \<open>(dev *Dev) fixPath\<close>; the error of \<open>os.Getwd\<close> is dropped.\<close>

definition Dev_fixPath :: "world \<Rightarrow> Dev \<Rightarrow> string \<Rightarrow> Dev" where
  "Dev_fixPath w dev originalPath =
     (let wd = (case cwd w of None \<Rightarrow> [] | Some d \<Rightarrow> d);
          src = Source (Mount dev)
      in if \<not> IsAbs src then
           if IsAbs originalPath
           then dev\<lparr>Mount := (Mount dev)\<lparr>Source := Join [Dir originalPath, src]\<rparr>\<rparr>
           else dev\<lparr>Mount := (Mount dev)\<lparr>Source := Join [wd, Dir originalPath, src]\<rparr>\<rparr>
         else dev)"

definition ReadDev :: "world \<Rightarrow> string \<Rightarrow> Dev result" where
  "ReadDev w devPath =
     (case readFile w devPath of
        None \<Rightarrow> Inl (Err ErrReadManifest)
      | Some b \<Rightarrow>
          (case loadDev w b of
             Inl e \<Rightarrow> Inl e
           | Inr d \<Rightarrow>
               (case validate w d of
                  Inl e \<Rightarrow> Inl e
                | Inr _ \<Rightarrow> Inr (Dev_fixPath w d devPath))))"

section \<open>Package storage: operations\<close>

definition version :: string where
  "version = ''1.0''"

text \<open>
  \<open>yaml.Marshal\<close> on the two struct types. Encoding leaves out every empty string.
  The encoder writes a string as a plain scalar when a plain scalar would be read back as
  that string, and quotes it otherwise; it takes the key \<open><<\<close> for such a string, so an
  entry stored under \<open><<\<close> is written under the plain merge key. Every other key is
  written as an ordinary key. Encoding these two struct types (strings and a map from
  strings to a struct of strings) has no failing case, so \<open>save\<close> has no branch for an
  error of \<open>yaml.Marshal\<close>.
\<close>

definition omitempty :: "string \<Rightarrow> string option" where
  "omitempty s = (if s = [] then None else Some s)"

definition marshal_Service :: "Service \<Rightarrow> service_doc" where
  "marshal_Service svc = ServiceDoc (omitempty (Folder svc)) (omitempty (Syncthing svc))"

definition marshal_Storage :: "Storage \<Rightarrow> storage_doc" where
  "marshal_Storage s =
     StorageDoc (omitempty (Version s))
       (ServicesMap
          (\<lambda>k. if k = ''<<'' then None else map_option marshal_Service (entries s k))
          (map_option marshal_Service (entries s ''<<'')))"

text \<open>
  \<open>yaml.Unmarshal\<close> into a registry. Decoding writes the keys the document has into
  the value it is given and leaves the other fields as they are. A null \<open>services\<close>
  sets the map to nil. The entries of a mapping are stored into the map the struct holds
  (made first when that is nil), each decoded into a fresh \<open>Service\<close>. The value under
  the merge key is decoded as if it were the \<open>services\<close> mapping: its keys
  \<open>folder\<close> and \<open>syncthing\<close> are then taken for session keys and their strings for
  records, which is a type error, and \<open>Unmarshal\<close> returns it; a merge value with no
  keys adds nothing and is no error.
\<close>

definition unmarshal_Service :: "service_doc \<Rightarrow> Service" where
  "unmarshal_Service d =
     \<lparr>Folder = (case doc_folder d of None \<Rightarrow> [] | Some f \<Rightarrow> f),
      Syncthing = (case doc_syncthing d of None \<Rightarrow> [] | Some h \<Rightarrow> h)\<rparr>"

definition merge_fails :: "service_doc option \<Rightarrow> bool" where
  "merge_fails mg =
     (case mg of
        None \<Rightarrow> False
      | Some d \<Rightarrow> doc_folder d \<noteq> None \<or> doc_syncthing d \<noteq> None)"

definition unmarshal_Storage :: "storage_doc \<Rightarrow> Storage \<Rightarrow> Storage result" where
  "unmarshal_Storage d s =
     (let v = (case doc_version d of None \<Rightarrow> Version s | Some v \<Rightarrow> v)
      in case doc_services d of
           NullServices \<Rightarrow> Inr (s\<lparr>Version := v, Services := None\<rparr>)
         | ServicesMap es mg \<Rightarrow>
             if merge_fails mg then Inl (Err ErrUnmarshalStorage)
             else Inr (s\<lparr>Version := v,
                         Services := Some (entries s ++ (\<lambda>k. map_option unmarshal_Service (es k)))\<rparr>))"

text \<open>
  \<open>load\<close>: \<open>os.Stat\<close> answers non-existence exactly for an absent file; an
  unreadable one fails in \<open>ioutil.ReadFile\<close>.
\<close>

definition load :: "world \<Rightarrow> Storage result" where
  "load w =
     (let s = \<lparr>path = stPath w, Version = version, Services = Some Map.empty\<rparr>
      in case files w (stPath w) of
           Absent \<Rightarrow> Inr s
         | Unreadable \<Rightarrow> Inl (Err ErrReadStorage)
         | Malformed \<Rightarrow> Inl (Err ErrUnmarshalStorage)
         | Content d \<Rightarrow> unmarshal_Storage d s)"

definition save :: "Storage \<Rightarrow> world \<Rightarrow> unit result \<times> world" where
  "save s w =
     (if write_ok w (path s)
      then (Inr (), w\<lparr>files := (files w)(path s := Content (marshal_Storage s))\<rparr>)
      else (Inl (Err ErrWriteStorage), w))"

text \<open>The package function \<open>fixPath\<close> of storage.\<close>

definition fixPath :: "world \<Rightarrow> string \<Rightarrow> string result" where
  "fixPath w originalPath =
     (if IsAbs originalPath then Inr originalPath
      else case cwd w of
             None \<Rightarrow> Inl (Err ErrGetwd)
           | Some folder \<Rightarrow> Inr (Join [folder, originalPath]))"

definition newService :: "world \<Rightarrow> string \<Rightarrow> string \<Rightarrow> Service result" where
  "newService w folder host =
     (case fixPath w folder of
        Inl e \<Rightarrow> Inl e
      | Inr absFolder \<Rightarrow> Inr \<lparr>Folder = absFolder, Syncthing = host\<rparr>)"

definition getFullName :: "string \<Rightarrow> Dev \<Rightarrow> string" where
  "getFullName namespace dev =
     namespace @ ''/'' @ Name (Deployment (Swap dev)) @ ''/'' @ Container (Deployment (Swap dev))"

text \<open>
  The assignment \<open>s.Services[fullName] = svc\<close> followed by \<open>s.save()\<close>: on the nil
  map the assignment panics and nothing is saved.
\<close>

definition assign_and_save :: "Storage \<Rightarrow> string \<Rightarrow> Service \<Rightarrow> world \<Rightarrow> unit result \<times> world" where
  "assign_and_save s fullName svc w =
     (case Services s of
        None \<Rightarrow> (Inl Panic, w)
      | Some m \<Rightarrow> save (s\<lparr>Services := Some (m(fullName \<mapsto> svc))\<rparr>) w)"

definition Insert :: "string \<Rightarrow> Dev \<Rightarrow> string \<Rightarrow> world \<Rightarrow> unit result \<times> world" where
  "Insert namespace dev host w =
     (case load w of
        Inl e \<Rightarrow> (Inl e, w)
      | Inr s \<Rightarrow>
          let fullName = getFullName namespace dev
          in case newService w (Source (Mount dev)) host of
               Inl e \<Rightarrow> (Inl e, w)
             | Inr svc \<Rightarrow>
                 (case entries s fullName of
                    Some svc2 \<Rightarrow>
                      if svc2 = svc then (Inr (), w)
                      else if Syncthing svc2 \<noteq> [] then (Inl (Err ErrAlreadyRunning), w)
                      else assign_and_save s fullName svc w
                  | None \<Rightarrow> assign_and_save s fullName svc w))"

definition Get :: "string \<Rightarrow> Dev \<Rightarrow> world \<Rightarrow> Service result" where
  "Get namespace dev w =
     (case load w of
        Inl e \<Rightarrow> Inl e
      | Inr s \<Rightarrow>
          let fullName = getFullName namespace dev
          in case entries s fullName of
               None \<Rightarrow> Inl (Err (ErrNotFound fullName))
             | Some svc \<Rightarrow> Inr svc)"

definition Stop :: "string \<Rightarrow> Dev \<Rightarrow> world \<Rightarrow> unit result \<times> world" where
  "Stop namespace dev w =
     (case load w of
        Inl e \<Rightarrow> (Inl e, w)
      | Inr s \<Rightarrow>
          let fullName = getFullName namespace dev
          in case entries s fullName of
               Some svc \<Rightarrow> assign_and_save s fullName (svc\<lparr>Syncthing := []\<rparr>) w
             | None \<Rightarrow> (Inr (), w))"

definition Delete :: "string \<Rightarrow> Dev \<Rightarrow> world \<Rightarrow> unit result \<times> world" where
  "Delete namespace dev w =
     (case load w of
        Inl e \<Rightarrow> (Inl e, w)
      | Inr s \<Rightarrow>
          let fullName = getFullName namespace dev
          in save (s\<lparr>Services := map_option (\<lambda>m. m(fullName := None)) (Services s)\<rparr>) w)"

text \<open>\<open>All\<close> gives the nil map when loading fails, and the loaded map otherwise.\<close>

definition All :: "world \<Rightarrow> (string \<rightharpoonup> Service) option" where
  "All w = (case load w of Inl e \<Rightarrow> None | Inr s \<Rightarrow> Services s)"

section \<open>Concrete manifests and environments\<close>

text \<open>
  The inputs at which the theorems below are instantiated and evaluated: the manifest of
  the specification's end-to-end scenario (deployment \<open>web\<close>, container \<open>app\<close>), a
  second manifest for the same target with another source folder, and environments whose
  state file is absent, holds one active session, holds an empty version string, holds
  a null \<open>services\<close> key, or holds an entry under the quoted key \<open>"<<"\<close> (alone, and
  beside the active session).
\<close>

definition dev_web :: Dev where
  "dev_web =
     \<lparr>Swap = \<lparr>Deployment =
        \<lparr>Name = ''web'', Container = ''app'', Image = [], Command = [], Args = []\<rparr>\<rparr>,
      Mount = \<lparr>Source = ''/src/web'', Target = ''/app''\<rparr>,
      Scripts = Map.empty\<rparr>"

definition dev_web_moved :: Dev where
  "dev_web_moved = dev_web\<lparr>Mount := \<lparr>Source = ''/src/other'', Target = ''/app''\<rparr>\<rparr>"

definition world_fresh :: world where
  "world_fresh =
     \<lparr>HOME = ''/home/u'', cwd = Some ''/work'',
      stat = (\<lambda>p. StatNotExist), readFile = (\<lambda>p. None),
      stPath = ''/home/u/.cnd/.state'', files = (\<lambda>p. Absent), write_ok = (\<lambda>p. True)\<rparr>"

definition world_active :: world where
  "world_active =
     world_fresh\<lparr>files := (\<lambda>p. Absent)
       (''/home/u/.cnd/.state'' :=
          Content (StorageDoc (Some ''1.0'')
            (ServicesMap
               [''default/web/app'' \<mapsto>
                  ServiceDoc (Some ''/src/web'') (Some ''host:1234'')]
               None)))\<rparr>"

definition world_null_services :: world where
  "world_null_services =
     world_fresh\<lparr>files := (\<lambda>p. Absent)
       (''/home/u/.cnd/.state'' := Content (StorageDoc (Some ''1.0'') NullServices))\<rparr>"

definition world_merge_key :: world where
  "world_merge_key =
     world_fresh\<lparr>files := (\<lambda>p. Absent)
       (''/home/u/.cnd/.state'' :=
          Content (StorageDoc (Some ''1.0'')
            (ServicesMap
               [''<<'' \<mapsto> ServiceDoc (Some ''/src/old'') (Some ''host:9'')]
               None)))\<rparr>"

definition merge_key_storage :: Storage where
  "merge_key_storage =
     \<lparr>path = ''/home/u/.cnd/.state'', Version = ''1.0'',
      Services = Some [''<<'' \<mapsto> \<lparr>Folder = ''/src/old'', Syncthing = ''host:9''\<rparr>]\<rparr>"

definition world_active_merge_key :: world where
  "world_active_merge_key =
     world_fresh\<lparr>files := (\<lambda>p. Absent)
       (''/home/u/.cnd/.state'' :=
          Content (StorageDoc (Some ''1.0'')
            (ServicesMap
               [''<<'' \<mapsto> ServiceDoc (Some ''/src/old'') (Some ''host:9''),
                ''default/web/app'' \<mapsto>
                  ServiceDoc (Some ''/src/web'') (Some ''host:1234'')]
               None)))\<rparr>"

definition active_merge_key_storage :: Storage where
  "active_merge_key_storage =
     \<lparr>path = ''/home/u/.cnd/.state'', Version = ''1.0'',
      Services = Some [''<<'' \<mapsto> \<lparr>Folder = ''/src/old'', Syncthing = ''host:9''\<rparr>,
                       ''default/web/app'' \<mapsto> \<lparr>Folder = ''/src/web'', Syncthing = ''host:1234''\<rparr>]\<rparr>"

definition world_blank_version :: world where
  "world_blank_version =
     world_fresh\<lparr>files := (\<lambda>p. Absent)
       (''/home/u/.cnd/.state'' := Content (StorageDoc (Some []) (ServicesMap Map.empty None)))\<rparr>"

definition blank_version_storage :: Storage where
  "blank_version_storage =
     \<lparr>path = ''/home/u/.cnd/.state'', Version = [], Services = Some Map.empty\<rparr>"

definition active_storage :: Storage where
  "active_storage =
     \<lparr>path = ''/home/u/.cnd/.state'', Version = ''1.0'',
      Services = Some [''default/web/app'' \<mapsto> \<lparr>Folder = ''/src/web'', Syncthing = ''host:1234''\<rparr>]\<rparr>"

definition dev_web_sidecar :: Dev where
  "dev_web_sidecar =
     dev_web\<lparr>Swap := \<lparr>Deployment =
        \<lparr>Name = ''web'', Container = ''sidecar'', Image = [], Command = [], Args = []\<rparr>\<rparr>\<rparr>"

text \<open>Two targets whose names hold a slash at different places.\<close>

definition dev_slash_in_name :: Dev where
  "dev_slash_in_name =
     dev_web\<lparr>Swap := \<lparr>Deployment =
        \<lparr>Name = ''b/c'', Container = ''d'', Image = [], Command = [], Args = []\<rparr>\<rparr>\<rparr>"

definition dev_plain_name :: Dev where
  "dev_plain_name =
     dev_web\<lparr>Swap := \<lparr>Deployment =
        \<lparr>Name = ''c'', Container = ''d'', Image = [], Command = [], Args = []\<rparr>\<rparr>\<rparr>"

text \<open>
  A manifest \<open>/repo/cnd.yml\<close> with \<open>mount.source: ./a\<close>, read by a process whose
  working directory is \<open>/work\<close>. In the first environment \<open>/repo/a\<close> is a directory
  and \<open>/work\<close> has no entry \<open>a\<close>; in the second it is the other way round; in the
  third every \<open>os.Stat\<close> fails with an error that is not a non-existence.
\<close>

definition doc_relative :: dev_doc where
  "doc_relative =
     \<lparr>doc_deployment =
        \<lparr>Name = ''web'', Container = ''app'', Image = [], Command = [], Args = []\<rparr>,
      doc_source = Some ''./a'', doc_target = None, doc_scripts = Map.empty\<rparr>"

definition dev_relative :: Dev where
  "dev_relative =
     \<lparr>Swap = \<lparr>Deployment =
        \<lparr>Name = ''web'', Container = ''app'', Image = [], Command = [], Args = []\<rparr>\<rparr>,
      Mount = \<lparr>Source = ''./a'', Target = ''/src''\<rparr>,
      Scripts = Map.empty\<rparr>"

definition world_source_beside_manifest :: world where
  "world_source_beside_manifest =
     world_fresh\<lparr>readFile := (\<lambda>p. None)(''/repo/cnd.yml'' \<mapsto> Yaml doc_relative),
                 stat := (\<lambda>p. StatNotExist)(''/repo/a'' := StatInfo True)\<rparr>"

definition world_source_in_cwd :: world where
  "world_source_in_cwd =
     world_fresh\<lparr>readFile := (\<lambda>p. None)(''/repo/cnd.yml'' \<mapsto> Yaml doc_relative),
                 stat := (\<lambda>p. StatNotExist)(''./a'' := StatInfo True)\<rparr>"

definition world_stat_denied :: world where
  "world_stat_denied =
     world_fresh\<lparr>readFile := (\<lambda>p. None)(''/repo/cnd.yml'' \<mapsto> Yaml doc_relative),
                 stat := (\<lambda>p. StatFailed)\<rparr>"

definition doc_home :: dev_doc where
  "doc_home = doc_relative\<lparr>doc_source := Some ''~/x''\<rparr>"

section \<open>Facts shared by the registry theorems\<close>

lemma unmarshal_marshal_Service: "unmarshal_Service (marshal_Service svc) = svc"
  by (simp add: unmarshal_Service_def marshal_Service_def omitempty_def)

lemma merge_fails_marshal:
  "merge_fails (map_option marshal_Service r) \<longleftrightarrow>
     (\<exists>svc. r = Some svc \<and> (Folder svc \<noteq> [] \<or> Syncthing svc \<noteq> []))"
  by (cases r) (auto simp: merge_fails_def marshal_Service_def omitempty_def)

lemma decode_entries:
  "(\<lambda>k. map_option unmarshal_Service
          (if k = ''<<'' then None else map_option marshal_Service (m k))) = m(''<<'' := None)"
  by (rule ext) (simp add: option.map_comp comp_def unmarshal_marshal_Service option.map_ident)

lemma entries_Some [simp]: "entries (s\<lparr>Services := Some m\<rparr>) = m"
  by (simp add: entries_def)

lemma entries_record [simp]: "entries \<lparr>path = p, Version = v, Services = Some m\<rparr> = m"
  by (simp add: entries_def)

lemma unmarshal_marshal_Storage:
  "unmarshal_Storage (marshal_Storage s) \<lparr>path = p, Version = version, Services = Some Map.empty\<rparr> =
     (if \<exists>svc. entries s ''<<'' = Some svc \<and> (Folder svc \<noteq> [] \<or> Syncthing svc \<noteq> [])
      then Inl (Err ErrUnmarshalStorage)
      else Inr \<lparr>path = p, Version = (if Version s = [] then version else Version s),
                Services = Some ((entries s)(''<<'' := None))\<rparr>)"
  by (simp add: unmarshal_Storage_def marshal_Storage_def omitempty_def
      merge_fails_marshal decode_entries Let_def)

text \<open>What \<open>load\<close> makes of a state file that \<open>save\<close> wrote.\<close>

lemma load_written:
  "load (w\<lparr>files := (files w)(stPath w := Content (marshal_Storage s))\<rparr>) =
     (if \<exists>svc. entries s ''<<'' = Some svc \<and> (Folder svc \<noteq> [] \<or> Syncthing svc \<noteq> [])
      then Inl (Err ErrUnmarshalStorage)
      else Inr \<lparr>path = stPath w, Version = (if Version s = [] then version else Version s),
                Services = Some ((entries s)(''<<'' := None))\<rparr>)"
  by (simp add: load_def unmarshal_marshal_Storage del: entries_record)

lemma load_written_plain:
  "entries s ''<<'' = None \<Longrightarrow>
   load (w\<lparr>files := (files w)(stPath w := Content (marshal_Storage s))\<rparr>) =
     Inr \<lparr>path = stPath w, Version = (if Version s = [] then version else Version s),
          Services = Some (entries s)\<rparr>"
  by (simp add: load_written fun_upd_idem)

lemma load_path: "load w = Inr s \<Longrightarrow> path s = stPath w"
  by (auto simp: load_def Let_def unmarshal_Storage_def
      split: state_file.splits services_doc.splits if_splits)

lemma save_at_stPath:
  "path s = stPath w \<Longrightarrow> write_ok w (stPath w) \<Longrightarrow>
     save s w = (Inr (), w\<lparr>files := (files w)(stPath w := Content (marshal_Storage s))\<rparr>)"
  by (simp add: save_def)

lemma save_result:
  "save s w = (r, w1) \<Longrightarrow>
     (r = Inr () \<and> write_ok w (path s) \<and>
        w1 = w\<lparr>files := (files w)(path s := Content (marshal_Storage s))\<rparr>) \<or>
     (r = Inl (Err ErrWriteStorage) \<and> w1 = w)"
  by (auto simp: save_def split: if_splits)

lemma load_after_save:
  assumes "path s = stPath w" and "save s w = (Inr (), w1)" and "entries s ''<<'' = None"
  shows "load w1 = Inr \<lparr>path = stPath w, Version = (if Version s = [] then version else Version s),
          Services = Some (entries s)\<rparr> \<and> stPath w1 = stPath w \<and> cwd w1 = cwd w"
proof -
  from save_result [OF assms(2)]
  have w1: "w1 = w\<lparr>files := (files w)(stPath w := Content (marshal_Storage s))\<rparr>"
    using assms(1) by auto
  show ?thesis unfolding w1 using load_written_plain [OF assms(3), of w] by simp
qed

lemma fixPath_cong: "cwd w1 = cwd w \<Longrightarrow> fixPath w1 p = fixPath w p"
  by (simp add: fixPath_def)

lemma Insert_cases:
  assumes "load w = Inr s" and "fixPath w (Source (Mount dev)) = Inr folder"
  shows "Insert ns dev h w =
     (case entries s (getFullName ns dev) of
        Some svc2 \<Rightarrow>
          if svc2 = \<lparr>Folder = folder, Syncthing = h\<rparr> then (Inr (), w)
          else if Syncthing svc2 \<noteq> [] then (Inl (Err ErrAlreadyRunning), w)
          else assign_and_save s (getFullName ns dev) \<lparr>Folder = folder, Syncthing = h\<rparr> w
      | None \<Rightarrow> assign_and_save s (getFullName ns dev) \<lparr>Folder = folder, Syncthing = h\<rparr> w)"
  using assms by (simp add: Insert_def newService_def Let_def)

lemma Insert_load_failed: "load w = Inl e \<Longrightarrow> Insert ns dev h w = (Inl e, w)"
  by (simp add: Insert_def)

lemma Insert_fixPath_failed:
  "load w = Inr s \<Longrightarrow> fixPath w (Source (Mount dev)) = Inl e \<Longrightarrow> Insert ns dev h w = (Inl e, w)"
  by (simp add: Insert_def newService_def Let_def)

lemma Insert_Ok_load:
  assumes "Insert ns dev h w = (Inr (), w1)"
  shows "\<exists>s folder. load w = Inr s \<and> fixPath w (Source (Mount dev)) = Inr folder"
proof (cases "load w")
  case (Inl e)
  with assms Insert_load_failed [OF Inl, of ns dev h] show ?thesis by simp
next
  case (Inr s)
  show ?thesis
  proof (cases "fixPath w (Source (Mount dev))")
    case (Inl e)
    with assms Insert_fixPath_failed [OF Inr Inl, of ns h] show ?thesis by simp
  next
    case (Inr folder)
    with \<open>load w = Inr s\<close> show ?thesis by blast
  qed
qed

lemma key_not_merge: "getFullName ns dev \<noteq> ''<<''"
  by (simp add: getFullName_def append_eq_Cons_conv Cons_eq_append_conv)

lemma assign_and_save_Ok:
  assumes "assign_and_save s k svc w = (Inr (), w1)"
  shows "\<exists>m. Services s = Some m \<and> save (s\<lparr>Services := Some (m(k \<mapsto> svc))\<rparr>) w = (Inr (), w1)"
  using assms by (cases "Services s") (simp_all add: assign_and_save_def)

lemma assign_and_save_not_running:
  "fst (assign_and_save s k svc w) \<noteq> Inl (Err ErrAlreadyRunning)"
  by (cases "Services s") (simp_all add: assign_and_save_def save_def)

lemma assign_and_save_failed:
  "fst (assign_and_save s k svc w) \<noteq> Inr () \<Longrightarrow> snd (assign_and_save s k svc w) = w"
  by (cases "Services s") (simp_all add: assign_and_save_def save_def split: if_splits)

lemma entries_of_Some: "Services s = Some m \<Longrightarrow> entries s = m"
  by (simp add: entries_def)

lemma Insert_Ok_after:
  assumes ins: "Insert ns dev h w = (Inr (), w1)"
    and ld: "load w = Inr s" and fp: "fixPath w (Source (Mount dev)) = Inr folder"
    and nm: "entries s ''<<'' = None"
  shows "\<exists>s1. load w1 = Inr s1 \<and>
           entries s1 = (entries s)(getFullName ns dev \<mapsto> \<lparr>Folder = folder, Syncthing = h\<rparr>) \<and>
           cwd w1 = cwd w \<and> stPath w1 = stPath w"
proof -
  let ?k = "getFullName ns dev"
  let ?svc = "\<lparr>Folder = folder, Syncthing = h\<rparr>"
  note ic = Insert_cases [OF ld fp, of ns h]
  have saved: ?thesis if a: "assign_and_save s ?k ?svc w = (Inr (), w1)"
  proof -
    from assign_and_save_Ok [OF a] obtain m where m: "Services s = Some m"
      and sv: "save (s\<lparr>Services := Some (m(?k \<mapsto> ?svc))\<rparr>) w = (Inr (), w1)" by blast
    let ?s' = "s\<lparr>Services := Some (m(?k \<mapsto> ?svc))\<rparr>"
    have p: "path ?s' = stPath w" using load_path [OF ld] by simp
    have e: "entries s = m" by (rule entries_of_Some [OF m])
    have n: "entries ?s' ''<<'' = None" using nm e key_not_merge [of ns dev] by simp
    from load_after_save [OF p sv n] e show ?thesis by simp
  qed
  show ?thesis
  proof (cases "entries s ?k")
    case None
    with ic ins have "assign_and_save s ?k ?svc w = (Inr (), w1)" by simp
    then show ?thesis by (rule saved)
  next
    case (Some svc2)
    show ?thesis
    proof (cases "svc2 = ?svc")
      case True
      with ic ins Some have "w1 = w" by simp
      moreover have "(entries s)(?k \<mapsto> ?svc) = entries s"
        using Some True by (simp add: fun_upd_idem)
      ultimately show ?thesis using ld by simp
    next
      case False
      show ?thesis
      proof (cases "Syncthing svc2 = []")
        case True
        with ic ins Some False have "assign_and_save s ?k ?svc w = (Inr (), w1)" by simp
        then show ?thesis by (rule saved)
      next
        case nonempty: False
        with ic ins Some False show ?thesis by simp
      qed
    qed
  qed
qed

lemma IsAbs_Join: "IsAbs d \<Longrightarrow> IsAbs (Join [d, p])"
  by (cases d) (simp_all add: IsAbs_def Join_def Clean_def Let_def)

lemma fixPath_value:
  "fixPath w p = Inr folder \<Longrightarrow>
     (IsAbs p \<and> folder = p) \<or> (\<not> IsAbs p \<and> (\<exists>d. cwd w = Some d \<and> folder = Join [d, p]))"
  by (auto simp: fixPath_def split: if_splits option.splits)

lemma entries_Some_Services: "entries s k = Some svc \<Longrightarrow> Services s = Some (entries s)"
  by (cases "Services s") (simp_all add: entries_def)

lemma entries_delete:
  "entries (s\<lparr>Services := map_option (\<lambda>m. m(k := None)) (Services s)\<rparr>) = (entries s)(k := None)"
  by (cases "Services s") (simp_all add: entries_def)

subsection \<open>The concrete inputs, evaluated\<close>

lemma load_world_fresh:
  "load world_fresh =
     Inr \<lparr>path = ''/home/u/.cnd/.state'', Version = ''1.0'', Services = Some Map.empty\<rparr>"
  by (simp add: load_def world_fresh_def version_def)

lemma load_world_active: "load world_active = Inr active_storage"
  by (simp add: load_def world_active_def world_fresh_def version_def unmarshal_Storage_def
      unmarshal_Service_def map_add_def fun_eq_iff active_storage_def merge_fails_def)

lemma load_world_merge_key: "load world_merge_key = Inr merge_key_storage"
  by (simp add: load_def world_merge_key_def world_fresh_def version_def unmarshal_Storage_def
      unmarshal_Service_def map_add_def fun_eq_iff merge_key_storage_def merge_fails_def)

lemma load_world_active_merge_key: "load world_active_merge_key = Inr active_merge_key_storage"
  by (simp add: load_def world_active_merge_key_def world_fresh_def version_def
      unmarshal_Storage_def unmarshal_Service_def map_add_def fun_eq_iff
      active_merge_key_storage_def merge_fails_def)

lemma load_world_null_services:
  "load world_null_services =
     Inr \<lparr>path = ''/home/u/.cnd/.state'', Version = ''1.0'', Services = None\<rparr>"
  by (simp add: load_def world_null_services_def world_fresh_def version_def unmarshal_Storage_def)

lemma key_web: "getFullName ''default'' dev_web = ''default/web/app''"
  by (simp add: getFullName_def dev_web_def)

lemma key_web_moved: "getFullName ''default'' dev_web_moved = ''default/web/app''"
  by (simp add: getFullName_def dev_web_moved_def dev_web_def)

lemma key_relative: "getFullName ''default'' dev_relative = ''default/web/app''"
  by (simp add: getFullName_def dev_relative_def)

lemma active_storage_web:
  "entries active_storage ''default/web/app'' =
     Some \<lparr>Folder = ''/src/web'', Syncthing = ''host:1234''\<rparr>"
  by (simp add: active_storage_def)

lemma active_storage_no_merge: "entries active_storage ''<<'' = None"
  by (simp add: active_storage_def)

lemma fixPath_dev_web: "fixPath w (Source (Mount dev_web)) = Inr ''/src/web''"
  by (simp add: fixPath_def dev_web_def IsAbs_def)

lemma fixPath_dev_web_moved: "fixPath w (Source (Mount dev_web_moved)) = Inr ''/src/other''"
  by (simp add: fixPath_def dev_web_moved_def IsAbs_def)

lemma fixPath_dev_relative:
  "fixPath world_fresh (Source (Mount dev_relative)) = Inr ''/work/a''"
  by (simp add: fixPath_def dev_relative_def IsAbs_def world_fresh_def Join_def Clean_def)

lemma write_ok_world_fresh: "write_ok world_fresh (stPath world_fresh)"
  by (simp add: world_fresh_def)

lemma write_ok_world_active: "write_ok world_active (stPath world_active)"
  by (simp add: world_active_def world_fresh_def)

lemma Insert_fresh:
  "fst (Insert ''default'' dev_web ''host:1234'' world_fresh) = Inr ()"
  using Insert_cases [OF load_world_fresh fixPath_dev_web, of "''default''" "''host:1234''"]
  by (simp add: assign_and_save_def save_def world_fresh_def)

lemma Insert_fresh_pair:
  "Insert ''default'' dev_web ''host:1234'' world_fresh =
     (Inr (), snd (Insert ''default'' dev_web ''host:1234'' world_fresh))"
  using Insert_fresh by (simp add: prod_eq_iff)

lemma Insert_fresh_relative:
  "fst (Insert ''default'' dev_relative ''host:1234'' world_fresh) = Inr ()"
  using Insert_cases [OF load_world_fresh fixPath_dev_relative, of "''default''" "''host:1234''"]
  by (simp add: assign_and_save_def save_def world_fresh_def)

lemma Insert_fresh_relative_pair:
  "Insert ''default'' dev_relative ''host:1234'' world_fresh =
     (Inr (), snd (Insert ''default'' dev_relative ''host:1234'' world_fresh))"
  using Insert_fresh_relative by (simp add: prod_eq_iff)

text \<open>
  On the registry that holds an entry under \<open><<\<close>, \<open>Insert\<close> succeeds and writes a
  state file that \<open>load\<close> rejects.
\<close>

lemma Insert_merge_key:
  "Insert ''default'' dev_web ''host:1234'' world_merge_key =
     (Inr (), world_merge_key\<lparr>files := (files world_merge_key)(stPath world_merge_key :=
        Content (marshal_Storage (merge_key_storage\<lparr>Services :=
          Some ([''<<'' \<mapsto> \<lparr>Folder = ''/src/old'', Syncthing = ''host:9''\<rparr>]
                 (''default/web/app'' \<mapsto> \<lparr>Folder = ''/src/web'', Syncthing = ''host:1234''\<rparr>))\<rparr>)))\<rparr>)"
  using Insert_cases [OF load_world_merge_key fixPath_dev_web, of "''default''" "''host:1234''"]
  by (simp add: key_web assign_and_save_def save_def merge_key_storage_def world_merge_key_def
      world_fresh_def)

lemma load_after_Insert_merge_key:
  "load (snd (Insert ''default'' dev_web ''host:1234'' world_merge_key)) =
     Inl (Err ErrUnmarshalStorage)"
  by (simp add: Insert_merge_key load_written)

lemma active_merge_key_web:
  "entries active_merge_key_storage ''default/web/app'' =
     Some \<lparr>Folder = ''/src/web'', Syncthing = ''host:1234''\<rparr>"
  by (simp add: active_merge_key_storage_def)

lemma active_merge_key_merge:
  "entries active_merge_key_storage ''<<'' =
     Some \<lparr>Folder = ''/src/old'', Syncthing = ''host:9''\<rparr>"
  by (simp add: active_merge_key_storage_def)

lemma Stop_active_merge_key:
  "Stop ''default'' dev_web world_active_merge_key =
     (Inr (), world_active_merge_key\<lparr>files := (files world_active_merge_key)
        (stPath world_active_merge_key := Content (marshal_Storage
           (active_merge_key_storage\<lparr>Services := Some ((entries active_merge_key_storage)
              (''default/web/app'' \<mapsto> \<lparr>Folder = ''/src/web'', Syncthing = []\<rparr>))\<rparr>)))\<rparr>)"
proof -
  have "Stop ''default'' dev_web world_active_merge_key =
      assign_and_save active_merge_key_storage ''default/web/app''
        \<lparr>Folder = ''/src/web'', Syncthing = []\<rparr> world_active_merge_key"
    by (simp add: Stop_def load_world_active_merge_key key_web active_merge_key_web)
  also have "\<dots> = save (active_merge_key_storage\<lparr>Services := Some ((entries active_merge_key_storage)
              (''default/web/app'' \<mapsto> \<lparr>Folder = ''/src/web'', Syncthing = []\<rparr>))\<rparr>)
            world_active_merge_key"
    by (simp add: assign_and_save_def active_merge_key_storage_def)
  also have "\<dots> = (Inr (), world_active_merge_key\<lparr>files := (files world_active_merge_key)
        (stPath world_active_merge_key := Content (marshal_Storage
           (active_merge_key_storage\<lparr>Services := Some ((entries active_merge_key_storage)
              (''default/web/app'' \<mapsto> \<lparr>Folder = ''/src/web'', Syncthing = []\<rparr>))\<rparr>)))\<rparr>)"
    by (rule save_at_stPath)
       (simp_all add: active_merge_key_storage_def world_active_merge_key_def world_fresh_def)
  finally show ?thesis .
qed

lemma Delete_active_merge_key:
  "Delete ''default'' dev_web world_active_merge_key =
     (Inr (), world_active_merge_key\<lparr>files := (files world_active_merge_key)
        (stPath world_active_merge_key := Content (marshal_Storage
           (active_merge_key_storage\<lparr>Services := Some ((entries active_merge_key_storage)
              (''default/web/app'' := None))\<rparr>)))\<rparr>)"
proof -
  have "Delete ''default'' dev_web world_active_merge_key =
      save (active_merge_key_storage\<lparr>Services := Some ((entries active_merge_key_storage)
              (''default/web/app'' := None))\<rparr>) world_active_merge_key"
    by (simp add: Delete_def load_world_active_merge_key key_web)
       (simp add: active_merge_key_storage_def)
  also have "\<dots> = (Inr (), world_active_merge_key\<lparr>files := (files world_active_merge_key)
        (stPath world_active_merge_key := Content (marshal_Storage
           (active_merge_key_storage\<lparr>Services := Some ((entries active_merge_key_storage)
              (''default/web/app'' := None))\<rparr>)))\<rparr>)"
    by (rule save_at_stPath)
       (simp_all add: active_merge_key_storage_def world_active_merge_key_def world_fresh_def)
  finally show ?thesis .
qed

lemma Join_home_x: "Join [''/home/u'', ''x''] = ''/home/u/x''"
  by (simp add: Join_def Clean_def IsAbs_def)

lemma Dir_repo_manifest: "Dir ''/repo/cnd.yml'' = ''/repo''"
  by (simp add: Dir_def Clean_def IsAbs_def)

lemma Join_repo_a: "Join [''/repo'', ''./a''] = ''/repo/a''"
  by (simp add: Join_def Clean_def IsAbs_def)

lemma loadDev_doc_relative: "loadDev w (Yaml doc_relative) = Inr dev_relative"
  by (simp add: loadDev_def doc_relative_def dev_relative_def HasPrefix_def)

lemma Dev_fixPath_source:
  "Source (Mount (Dev_fixPath w dev p)) =
     (if IsAbs (Source (Mount dev)) then Source (Mount dev)
      else if IsAbs p then Join [Dir p, Source (Mount dev)]
      else Join [case cwd w of None \<Rightarrow> [] | Some d \<Rightarrow> d, Dir p, Source (Mount dev)])"
  by (simp add: Dev_fixPath_def Let_def)

lemma split_at_slash:
  "CHR ''/'' \<notin> set a \<Longrightarrow> CHR ''/'' \<notin> set c \<Longrightarrow>
     a @ CHR ''/'' # b = c @ CHR ''/'' # d \<Longrightarrow> a = c \<and> b = d"
proof (induction a arbitrary: c)
  case Nil
  then show ?case by (cases c) auto
next
  case (Cons x a)
  then show ?case by (cases c) auto
qed

section \<open>The claims\<close>

subsection \<open>C1: when \<open>Insert\<close> reports a running session\<close>

text \<open>
  C1, as the code has it. \<open>Insert\<close> fails with \<open>ErrAlreadyRunning\<close> exactly when
  the registry loads, the folder resolves, and the record stored at the key has a
  non-empty \<open>Syncthing\<close> handle and is not the requested record: its handle differs
  from the requested one or its folder differs from the resolved one. On that failure
  the environment is unchanged. In every other case with a loaded registry whose map is
  not nil and a resolved folder (no record, a record with an empty handle, or the
  requested record itself), if the state file can be written the call succeeds; and when
  the loaded registry has no entry under the key \<open><<\<close>, the registry read back holds
  the requested record at the key and every other entry as before.
\<close>

theorem Insert_AlreadyRunning_iff:
  "(fst (Insert ns dev h w) = Inl (Err ErrAlreadyRunning) \<longleftrightarrow>
      (\<exists>s folder svc2. load w = Inr s \<and> fixPath w (Source (Mount dev)) = Inr folder \<and>
          entries s (getFullName ns dev) = Some svc2 \<and> Syncthing svc2 \<noteq> [] \<and>
          (Syncthing svc2 \<noteq> h \<or> Folder svc2 \<noteq> folder))) \<and>
   (fst (Insert ns dev h w) = Inl (Err ErrAlreadyRunning) \<longrightarrow> snd (Insert ns dev h w) = w) \<and>
   (\<forall>s folder. load w = Inr s \<and> fixPath w (Source (Mount dev)) = Inr folder \<and>
        Services s \<noteq> None \<and>
        (\<forall>svc2. entries s (getFullName ns dev) = Some svc2 \<longrightarrow>
            Syncthing svc2 = [] \<or> (Syncthing svc2 = h \<and> Folder svc2 = folder)) \<and>
        write_ok w (stPath w) \<longrightarrow>
        fst (Insert ns dev h w) = Inr () \<and>
        (entries s ''<<'' = None \<longrightarrow>
           (\<exists>s'. load (snd (Insert ns dev h w)) = Inr s' \<and>
              entries s' = (entries s)(getFullName ns dev \<mapsto> \<lparr>Folder = folder, Syncthing = h\<rparr>))))"
proof -
  let ?k = "getFullName ns dev"
  let ?conflict = "\<exists>s folder svc2. load w = Inr s \<and> fixPath w (Source (Mount dev)) = Inr folder \<and>
          entries s ?k = Some svc2 \<and> Syncthing svc2 \<noteq> [] \<and>
          (Syncthing svc2 \<noteq> h \<or> Folder svc2 \<noteq> folder)"
  have A: "fst (Insert ns dev h w) = Inl (Err ErrAlreadyRunning) \<longleftrightarrow> ?conflict"
  proof (cases "load w")
    case (Inl e)
    then have "e \<noteq> Err ErrAlreadyRunning"
      by (auto simp: load_def Let_def unmarshal_Storage_def
          split: state_file.splits services_doc.splits if_splits)
    with Inl show ?thesis by (simp add: Insert_load_failed)
  next
    case ld: (Inr s)
    show ?thesis
    proof (cases "fixPath w (Source (Mount dev))")
      case (Inl e)
      then have "e = Err ErrGetwd" by (auto simp: fixPath_def split: if_splits option.splits)
      with Inl ld show ?thesis by (simp add: Insert_fixPath_failed)
    next
      case fp: (Inr folder)
      note ic = Insert_cases [OF ld fp, of ns h]
      note sv = assign_and_save_not_running [of s ?k "\<lparr>Folder = folder, Syncthing = h\<rparr>" w]
      have eq: "svc2 = \<lparr>Folder = folder, Syncthing = h\<rparr> \<longleftrightarrow>
                  Syncthing svc2 = h \<and> Folder svc2 = folder" for svc2 :: Service
        by (cases svc2) auto
      show ?thesis
      proof (cases "entries s ?k")
        case None
        with ic ld fp sv show ?thesis by simp
      next
        case (Some svc2)
        with ic ld fp sv eq [of svc2] show ?thesis by auto
      qed
    qed
  qed
  have B: "fst (Insert ns dev h w) = Inl (Err ErrAlreadyRunning) \<longrightarrow> snd (Insert ns dev h w) = w"
  proof
    assume f: "fst (Insert ns dev h w) = Inl (Err ErrAlreadyRunning)"
    from A f obtain s folder where ld: "load w = Inr s"
      and fp: "fixPath w (Source (Mount dev)) = Inr folder" by blast
    note sv = assign_and_save_failed [of s ?k "\<lparr>Folder = folder, Syncthing = h\<rparr>" w]
    with f Insert_cases [OF ld fp, of ns h] show "snd (Insert ns dev h w) = w"
      by (auto split: option.splits if_splits)
  qed
  have C: "fst (Insert ns dev h w) = Inr () \<and>
        (entries s ''<<'' = None \<longrightarrow>
           (\<exists>s'. load (snd (Insert ns dev h w)) = Inr s' \<and>
              entries s' = (entries s)(?k \<mapsto> \<lparr>Folder = folder, Syncthing = h\<rparr>)))"
    if ld: "load w = Inr s" and fp: "fixPath w (Source (Mount dev)) = Inr folder"
      and nn: "Services s \<noteq> None"
      and nc: "\<forall>svc2. entries s ?k = Some svc2 \<longrightarrow>
            Syncthing svc2 = [] \<or> (Syncthing svc2 = h \<and> Folder svc2 = folder)"
      and wr: "write_ok w (stPath w)" for s folder
  proof -
    let ?svc = "\<lparr>Folder = folder, Syncthing = h\<rparr>"
    have sv: "fst (assign_and_save s ?k ?svc w) = Inr ()"
      using wr nn load_path [OF ld] by (cases "Services s") (simp_all add: assign_and_save_def save_def)
    have ok: "fst (Insert ns dev h w) = Inr ()"
    proof (cases "entries s ?k")
      case None
      with Insert_cases [OF ld fp, of ns h] sv show ?thesis by simp
    next
      case (Some svc2)
      with nc have "Syncthing svc2 = [] \<or> svc2 = ?svc" by (cases svc2) auto
      with Some Insert_cases [OF ld fp, of ns h] sv show ?thesis by auto
    qed
    then have pair: "Insert ns dev h w = (Inr (), snd (Insert ns dev h w))"
      by (cases "Insert ns dev h w") simp
    have "\<exists>s'. load (snd (Insert ns dev h w)) = Inr s' \<and>
              entries s' = (entries s)(?k \<mapsto> ?svc)" if nm: "entries s ''<<'' = None"
      using Insert_Ok_after [OF pair ld fp nm] by blast
    with ok show ?thesis by blast
  qed
  from A B C show ?thesis by blast
qed

text \<open>
  The scenario of the specification: with \<open>host:1234\<close> active for
  \<open>default/web/app\<close>, an insert with \<open>host:5555\<close> is rejected and changes nothing;
  on an empty registry the insert of \<open>host:1234\<close> succeeds and the record is there.
\<close>

theorem Insert_AlreadyRunning_iff_witness:
  "fst (Insert ''default'' dev_web ''host:5555'' world_active) = Inl (Err ErrAlreadyRunning) \<and>
   snd (Insert ''default'' dev_web ''host:5555'' world_active) = world_active \<and>
   fst (Insert ''default'' dev_web ''host:1234'' world_fresh) = Inr () \<and>
   Get ''default'' dev_web (snd (Insert ''default'' dev_web ''host:1234'' world_fresh)) =
     Inr \<lparr>Folder = ''/src/web'', Syncthing = ''host:1234''\<rparr>"
proof -
  have "\<exists>s folder svc2. load world_active = Inr s \<and>
          fixPath world_active (Source (Mount dev_web)) = Inr folder \<and>
          entries s (getFullName ''default'' dev_web) = Some svc2 \<and> Syncthing svc2 \<noteq> [] \<and>
          (Syncthing svc2 \<noteq> ''host:5555'' \<or> Folder svc2 \<noteq> folder)"
    by (simp add: load_world_active fixPath_dev_web key_web active_storage_web)
  with Insert_AlreadyRunning_iff [of "''default''" dev_web "''host:5555''" world_active]
  have rejected:
    "fst (Insert ''default'' dev_web ''host:5555'' world_active) = Inl (Err ErrAlreadyRunning) \<and>
     snd (Insert ''default'' dev_web ''host:5555'' world_active) = world_active"
    by blast
  let ?s0 = "\<lparr>path = ''/home/u/.cnd/.state'', Version = ''1.0'',
              Services = Some (Map.empty :: string \<rightharpoonup> Service)\<rparr>"
  have "load world_fresh = Inr ?s0 \<and>
        fixPath world_fresh (Source (Mount dev_web)) = Inr ''/src/web'' \<and>
        Services ?s0 \<noteq> None \<and>
        (\<forall>svc2. entries ?s0 (getFullName ''default'' dev_web) = Some svc2 \<longrightarrow>
           Syncthing svc2 = [] \<or> (Syncthing svc2 = ''host:1234'' \<and> Folder svc2 = ''/src/web'')) \<and>
        write_ok world_fresh (stPath world_fresh)"
    by (simp add: load_world_fresh fixPath_dev_web write_ok_world_fresh)
  moreover have "entries ?s0 ''<<'' = None" by simp
  ultimately obtain s' where ok: "fst (Insert ''default'' dev_web ''host:1234'' world_fresh) = Inr ()"
    and l: "load (snd (Insert ''default'' dev_web ''host:1234'' world_fresh)) = Inr s'"
    and m: "entries s' = (entries ?s0)(getFullName ''default'' dev_web \<mapsto>
              \<lparr>Folder = ''/src/web'', Syncthing = ''host:1234''\<rparr>)"
    using Insert_AlreadyRunning_iff [of "''default''" dev_web "''host:1234''" world_fresh]
    by blast
  have "Get ''default'' dev_web (snd (Insert ''default'' dev_web ''host:1234'' world_fresh)) =
     Inr \<lparr>Folder = ''/src/web'', Syncthing = ''host:1234''\<rparr>"
    by (simp add: Get_def l m)
  with rejected ok show ?thesis by blast
qed

text \<open>
  Against C1 as stated. The stored handle is \<open>host:1234\<close> and so is the requested
  one, yet the call fails with \<open>ErrAlreadyRunning\<close>, because the manifest's source
  resolves to another folder than the stored one. And where the state file has a null
  \<open>services\<close> key there is no record at the key, and the call does not succeed: the
  assignment to the nil map panics.
\<close>

theorem Insert_same_handle_other_folder:
  "Get ''default'' dev_web_moved world_active =
      Inr \<lparr>Folder = ''/src/web'', Syncthing = ''host:1234''\<rparr> \<and>
   Insert ''default'' dev_web_moved ''host:1234'' world_active =
      (Inl (Err ErrAlreadyRunning), world_active) \<and>
   Get ''default'' dev_web world_null_services = Inl (Err (ErrNotFound ''default/web/app'')) \<and>
   Insert ''default'' dev_web ''host:1234'' world_null_services =
      (Inl Panic, world_null_services)"
proof -
  have a: "Get ''default'' dev_web_moved world_active =
      Inr \<lparr>Folder = ''/src/web'', Syncthing = ''host:1234''\<rparr>"
    by (simp add: Get_def load_world_active key_web_moved active_storage_web)
  have b: "Insert ''default'' dev_web_moved ''host:1234'' world_active =
      (Inl (Err ErrAlreadyRunning), world_active)"
    using Insert_cases [OF load_world_active fixPath_dev_web_moved, of "''default''" "''host:1234''"]
    by (simp add: key_web_moved active_storage_web)
  have c: "Get ''default'' dev_web world_null_services = Inl (Err (ErrNotFound ''default/web/app''))"
    by (simp add: Get_def load_world_null_services key_web entries_def)
  have d: "Insert ''default'' dev_web ''host:1234'' world_null_services =
      (Inl Panic, world_null_services)"
    using Insert_cases [OF load_world_null_services fixPath_dev_web, of "''default''" "''host:1234''"]
    by (simp add: key_web entries_def assign_and_save_def)
  from a b c d show ?thesis by blast
qed

subsection \<open>C2: \<open>Insert\<close> is idempotent\<close>

text \<open>
  C2, as the code has it. On a loaded registry that has no entry under the key \<open><<\<close>:
  when \<open>Insert\<close> has returned success, the same call made again on the environment it
  left returns success too and leaves that environment, and with it the persisted
  registry, exactly as it was after the first call.
\<close>

theorem Insert_idempotent:
  "load w = Inr s \<Longrightarrow> entries s ''<<'' = None \<Longrightarrow>
     Insert ns dev h w = (Inr (), w1) \<Longrightarrow> Insert ns dev h w1 = (Inr (), w1)"
proof -
  assume ld: "load w = Inr s" and nm: "entries s ''<<'' = None"
    and ins: "Insert ns dev h w = (Inr (), w1)"
  from Insert_Ok_load [OF ins] ld obtain folder
    where fp: "fixPath w (Source (Mount dev)) = Inr folder" by auto
  from Insert_Ok_after [OF ins ld fp nm] obtain s1
    where ld1: "load w1 = Inr s1"
      and k: "entries s1 = (entries s)(getFullName ns dev \<mapsto> \<lparr>Folder = folder, Syncthing = h\<rparr>)"
      and c: "cwd w1 = cwd w" by blast
  have fp1: "fixPath w1 (Source (Mount dev)) = Inr folder"
    using fp fixPath_cong [OF c] by simp
  show ?thesis using Insert_cases [OF ld1 fp1, of ns h] k by simp
qed

theorem Insert_idempotent_witness:
  "fst (Insert ''default'' dev_web ''host:1234'' world_fresh) = Inr () \<and>
   Insert ''default'' dev_web ''host:1234''
       (snd (Insert ''default'' dev_web ''host:1234'' world_fresh)) =
     (Inr (), snd (Insert ''default'' dev_web ''host:1234'' world_fresh))"
proof -
  have n: "entries \<lparr>path = ''/home/u/.cnd/.state'', Version = ''1.0'',
              Services = Some (Map.empty :: string \<rightharpoonup> Service)\<rparr> ''<<'' = None"
    by simp
  from Insert_idempotent [OF load_world_fresh n Insert_fresh_pair] Insert_fresh
  show ?thesis by simp
qed

text \<open>
  Against C2 as stated: the state file holds an entry under the quoted key \<open>"<<"\<close>.
  The first \<open>Insert\<close> succeeds and saves; the encoder writes that key as the plain
  merge key, the second call cannot load the file and fails with the decoding error.
\<close>

theorem Insert_twice_merge_key:
  "load world_merge_key = Inr merge_key_storage \<and>
   fst (Insert ''default'' dev_web ''host:1234'' world_merge_key) = Inr () \<and>
   fst (Insert ''default'' dev_web ''host:1234''
         (snd (Insert ''default'' dev_web ''host:1234'' world_merge_key))) =
     Inl (Err ErrUnmarshalStorage)"
proof -
  have a: "fst (Insert ''default'' dev_web ''host:1234'' world_merge_key) = Inr ()"
    by (simp add: Insert_merge_key)
  have b: "fst (Insert ''default'' dev_web ''host:1234''
         (snd (Insert ''default'' dev_web ''host:1234'' world_merge_key))) =
     Inl (Err ErrUnmarshalStorage)"
    using Insert_load_failed [OF load_after_Insert_merge_key] by simp
  from load_world_merge_key a b show ?thesis by blast
qed

subsection \<open>C3: \<open>Get\<close> after \<open>Insert\<close>\<close>

text \<open>
  C3, as the code has it. On a loaded registry that has no entry under the key \<open><<\<close>:
  when \<open>Insert\<close> has returned success, \<open>Get\<close> for the same namespace and manifest
  on the environment it left returns the record whose handle is the inserted one and
  whose folder is the manifest's source when that is absolute, and otherwise the
  working directory joined with the source; the folder is an absolute path whenever the
  working directory is one.
\<close>

theorem Insert_then_Get:
  "load w = Inr s \<Longrightarrow> entries s ''<<'' = None \<Longrightarrow>
     Insert ns dev h w = (Inr (), w1) \<Longrightarrow>
     \<exists>folder. Get ns dev w1 = Inr \<lparr>Folder = folder, Syncthing = h\<rparr> \<and>
       (IsAbs (Source (Mount dev)) \<longrightarrow> folder = Source (Mount dev)) \<and>
       (\<not> IsAbs (Source (Mount dev)) \<longrightarrow>
          (\<exists>d. cwd w = Some d \<and> folder = Join [d, Source (Mount dev)])) \<and>
       ((\<forall>d. cwd w = Some d \<longrightarrow> IsAbs d) \<longrightarrow> IsAbs folder)"
proof -
  assume ld: "load w = Inr s" and nm: "entries s ''<<'' = None"
    and ins: "Insert ns dev h w = (Inr (), w1)"
  from Insert_Ok_load [OF ins] ld obtain folder
    where fp: "fixPath w (Source (Mount dev)) = Inr folder" by auto
  from Insert_Ok_after [OF ins ld fp nm] obtain s1
    where ld1: "load w1 = Inr s1"
      and k: "entries s1 = (entries s)(getFullName ns dev \<mapsto> \<lparr>Folder = folder, Syncthing = h\<rparr>)"
    by blast
  have g: "Get ns dev w1 = Inr \<lparr>Folder = folder, Syncthing = h\<rparr>"
    using ld1 k by (simp add: Get_def Let_def)
  note v = fixPath_value [OF fp]
  have abs: "IsAbs folder" if "\<forall>d. cwd w = Some d \<longrightarrow> IsAbs d"
    using v that IsAbs_Join by auto
  from g v abs show ?thesis by blast
qed

text \<open>
  With the working directory \<open>/work\<close> the relative source \<open>./a\<close> is stored as
  \<open>/work/a\<close>.
\<close>

theorem Insert_then_Get_witness:
  "fst (Insert ''default'' dev_relative ''host:1234'' world_fresh) = Inr () \<and>
   Source (Mount dev_relative) = ''./a'' \<and> cwd world_fresh = Some ''/work'' \<and>
   Get ''default'' dev_relative (snd (Insert ''default'' dev_relative ''host:1234'' world_fresh)) =
     Inr \<lparr>Folder = ''/work/a'', Syncthing = ''host:1234''\<rparr>"
proof -
  have n: "entries \<lparr>path = ''/home/u/.cnd/.state'', Version = ''1.0'',
              Services = Some (Map.empty :: string \<rightharpoonup> Service)\<rparr> ''<<'' = None"
    by simp
  from Insert_then_Get [OF load_world_fresh n Insert_fresh_relative_pair]
  obtain folder where
    g: "Get ''default'' dev_relative
          (snd (Insert ''default'' dev_relative ''host:1234'' world_fresh)) =
        Inr \<lparr>Folder = folder, Syncthing = ''host:1234''\<rparr>"
    and r: "\<not> IsAbs (Source (Mount dev_relative)) \<longrightarrow>
          (\<exists>d. cwd world_fresh = Some d \<and> folder = Join [d, Source (Mount dev_relative)])"
    by blast
  have s: "Source (Mount dev_relative) = ''./a''" by (simp add: dev_relative_def)
  have c: "cwd world_fresh = Some ''/work''" by (simp add: world_fresh_def)
  from r s c have "folder = Join [''/work'', ''./a'']" by (simp add: IsAbs_def)
  also have "\<dots> = ''/work/a''" by (simp add: Join_def Clean_def IsAbs_def)
  finally have "folder = ''/work/a''" .
  with g s c Insert_fresh_relative show ?thesis by simp
qed

text \<open>
  Against C3 as stated: with an entry under the quoted key \<open>"<<"\<close> in the state file,
  \<open>Insert\<close> succeeds and the \<open>Get\<close> that follows fails with the decoding error.
\<close>

theorem Insert_then_Get_merge_key:
  "load world_merge_key = Inr merge_key_storage \<and>
   fst (Insert ''default'' dev_web ''host:1234'' world_merge_key) = Inr () \<and>
   Get ''default'' dev_web (snd (Insert ''default'' dev_web ''host:1234'' world_merge_key)) =
     Inl (Err ErrUnmarshalStorage)"
proof -
  have a: "fst (Insert ''default'' dev_web ''host:1234'' world_merge_key) = Inr ()"
    by (simp add: Insert_merge_key)
  have b: "Get ''default'' dev_web (snd (Insert ''default'' dev_web ''host:1234'' world_merge_key)) =
     Inl (Err ErrUnmarshalStorage)"
    by (simp add: Get_def load_after_Insert_merge_key)
  from load_world_merge_key a b show ?thesis by blast
qed

subsection \<open>C4: \<open>Stop\<close> clears the handle and nothing else\<close>

text \<open>
  C4, as the code has it. With a registry that loads: when the key has no record,
  \<open>Stop\<close> returns success and leaves the environment untouched (nothing is written).
  When the key has a record and the state file can be written, \<open>Stop\<close> returns
  success, the only change to the environment is the state file, which now holds the
  encoding of the loaded registry with that record's handle set to the empty string; and
  when the loaded registry has no entry under the key \<open><<\<close>, the registry read back
  has the same folder at the key, the empty handle, and every other entry unchanged, and
  \<open>Get\<close> returns that record.
\<close>

theorem Stop_clears_handle:
  "load w = Inr s \<Longrightarrow>
     (entries s (getFullName ns dev) = None \<longrightarrow> Stop ns dev w = (Inr (), w)) \<and>
     (\<forall>svc. entries s (getFullName ns dev) = Some svc \<and> write_ok w (stPath w) \<longrightarrow>
        Stop ns dev w =
          (Inr (), w\<lparr>files := (files w)(stPath w := Content (marshal_Storage
             (s\<lparr>Services := Some ((entries s)(getFullName ns dev \<mapsto> svc\<lparr>Syncthing := []\<rparr>))\<rparr>)))\<rparr>) \<and>
        (entries s ''<<'' = None \<longrightarrow>
           (\<exists>s'. load (snd (Stop ns dev w)) = Inr s' \<and>
              entries s' = (entries s)(getFullName ns dev \<mapsto> \<lparr>Folder = Folder svc, Syncthing = []\<rparr>)) \<and>
           Get ns dev (snd (Stop ns dev w)) = Inr \<lparr>Folder = Folder svc, Syncthing = []\<rparr>))"
proof -
  assume ld: "load w = Inr s"
  let ?k = "getFullName ns dev"
  have none: "entries s ?k = None \<longrightarrow> Stop ns dev w = (Inr (), w)"
    using ld by (simp add: Stop_def Let_def)
  have some: "Stop ns dev w =
          (Inr (), w\<lparr>files := (files w)(stPath w := Content (marshal_Storage
             (s\<lparr>Services := Some ((entries s)(?k \<mapsto> svc\<lparr>Syncthing := []\<rparr>))\<rparr>)))\<rparr>) \<and>
        (entries s ''<<'' = None \<longrightarrow>
           (\<exists>s'. load (snd (Stop ns dev w)) = Inr s' \<and>
              entries s' = (entries s)(?k \<mapsto> \<lparr>Folder = Folder svc, Syncthing = []\<rparr>)) \<and>
           Get ns dev (snd (Stop ns dev w)) = Inr \<lparr>Folder = Folder svc, Syncthing = []\<rparr>)"
    if k: "entries s ?k = Some svc" and wr: "write_ok w (stPath w)" for svc
  proof -
    let ?s' = "s\<lparr>Services := Some ((entries s)(?k \<mapsto> svc\<lparr>Syncthing := []\<rparr>))\<rparr>"
    have p: "path ?s' = stPath w" using load_path [OF ld] by simp
    have st: "Stop ns dev w = save ?s' w"
      using ld k entries_Some_Services [OF k] by (simp add: Stop_def Let_def assign_and_save_def)
    have sv: "save ?s' w = (Inr (), w\<lparr>files := (files w)(stPath w := Content (marshal_Storage ?s'))\<rparr>)"
      by (rule save_at_stPath [OF p wr])
    have svc: "svc\<lparr>Syncthing := []\<rparr> = \<lparr>Folder = Folder svc, Syncthing = []\<rparr>"
      by (cases svc) simp
    have written: "Stop ns dev w =
          (Inr (), w\<lparr>files := (files w)(stPath w := Content (marshal_Storage ?s'))\<rparr>)"
      using st sv by simp
    have reread: "(\<exists>s'. load (snd (Stop ns dev w)) = Inr s' \<and>
              entries s' = (entries s)(?k \<mapsto> \<lparr>Folder = Folder svc, Syncthing = []\<rparr>)) \<and>
           Get ns dev (snd (Stop ns dev w)) = Inr \<lparr>Folder = Folder svc, Syncthing = []\<rparr>"
      if nm: "entries s ''<<'' = None"
    proof -
      have n: "entries ?s' ''<<'' = None" using nm key_not_merge [of ns dev] by simp
      have sv': "save ?s' w = (Inr (), snd (Stop ns dev w))" using st sv by simp
      have l: "load (snd (Stop ns dev w)) =
          Inr \<lparr>path = stPath w, Version = (if Version ?s' = [] then version else Version ?s'),
              Services = Some (entries ?s')\<rparr>"
        using load_after_save [OF p sv' n] by simp
      then have g: "Get ns dev (snd (Stop ns dev w)) = Inr \<lparr>Folder = Folder svc, Syncthing = []\<rparr>"
        by (simp add: Get_def Let_def svc)
      have e: "\<exists>s'. load (snd (Stop ns dev w)) = Inr s' \<and>
             entries s' = (entries s)(?k \<mapsto> \<lparr>Folder = Folder svc, Syncthing = []\<rparr>)"
        using l by (simp add: svc)
      from e g show ?thesis by blast
    qed
    from written reread show ?thesis by blast
  qed
  from none some show ?thesis by blast
qed

theorem Stop_clears_handle_witness:
  "Stop ''default'' dev_web world_fresh = (Inr (), world_fresh) \<and>
   fst (Stop ''default'' dev_web world_active) = Inr () \<and>
   Get ''default'' dev_web (snd (Stop ''default'' dev_web world_active)) =
     Inr \<lparr>Folder = ''/src/web'', Syncthing = []\<rparr>"
proof -
  have k: "entries active_storage (getFullName ''default'' dev_web) =
      Some \<lparr>Folder = ''/src/web'', Syncthing = ''host:1234''\<rparr>"
    by (simp add: active_storage_web key_web)
  have n: "entries \<lparr>path = ''/home/u/.cnd/.state'', Version = ''1.0'',
              Services = Some (Map.empty :: string \<rightharpoonup> Service)\<rparr>
      (getFullName ''default'' dev_web) = None"
    by simp
  from Stop_clears_handle [OF load_world_fresh, of "''default''" dev_web] n
  have a: "Stop ''default'' dev_web world_fresh = (Inr (), world_fresh)" by blast
  from Stop_clears_handle [OF load_world_active, of "''default''" dev_web] k write_ok_world_active
    active_storage_no_merge
  have b: "Stop ''default'' dev_web world_active =
      (Inr (), world_active\<lparr>files := (files world_active)(stPath world_active :=
         Content (marshal_Storage (active_storage\<lparr>Services := Some ((entries active_storage)
           (getFullName ''default'' dev_web \<mapsto>
              \<lparr>Folder = ''/src/web'', Syncthing = ''host:1234''\<rparr>\<lparr>Syncthing := []\<rparr>))\<rparr>)))\<rparr>)"
    and g: "Get ''default'' dev_web (snd (Stop ''default'' dev_web world_active)) =
      Inr \<lparr>Folder = Folder \<lparr>Folder = ''/src/web'', Syncthing = ''host:1234''\<rparr>, Syncthing = []\<rparr>"
    by blast+
  from b have f: "fst (Stop ''default'' dev_web world_active) = Inr ()" by simp
  from g have "Get ''default'' dev_web (snd (Stop ''default'' dev_web world_active)) =
      Inr \<lparr>Folder = ''/src/web'', Syncthing = []\<rparr>" by simp
  with a f show ?thesis by blast
qed

text \<open>
  Against C4 as stated: the state file holds the active session and an entry under the
  quoted key \<open>"<<"\<close>. \<open>Stop\<close> succeeds, and the \<open>Get\<close> that follows does not
  show the cleared handle; it fails with the decoding error.
\<close>

theorem Stop_then_Get_merge_key:
  "load world_active_merge_key = Inr active_merge_key_storage \<and>
   Get ''default'' dev_web world_active_merge_key =
     Inr \<lparr>Folder = ''/src/web'', Syncthing = ''host:1234''\<rparr> \<and>
   fst (Stop ''default'' dev_web world_active_merge_key) = Inr () \<and>
   Get ''default'' dev_web (snd (Stop ''default'' dev_web world_active_merge_key)) =
     Inl (Err ErrUnmarshalStorage)"
proof -
  have a: "Get ''default'' dev_web world_active_merge_key =
     Inr \<lparr>Folder = ''/src/web'', Syncthing = ''host:1234''\<rparr>"
    by (simp add: Get_def load_world_active_merge_key key_web active_merge_key_web)
  have b: "fst (Stop ''default'' dev_web world_active_merge_key) = Inr ()"
    by (simp add: Stop_active_merge_key)
  have "load (snd (Stop ''default'' dev_web world_active_merge_key)) = Inl (Err ErrUnmarshalStorage)"
    by (simp add: Stop_active_merge_key load_written active_merge_key_merge)
  then have c: "Get ''default'' dev_web (snd (Stop ''default'' dev_web world_active_merge_key)) =
     Inl (Err ErrUnmarshalStorage)"
    by (simp add: Get_def)
  from load_world_active_merge_key a b c show ?thesis by blast
qed

subsection \<open>C5: \<open>Delete\<close> removes the entry\<close>

text \<open>
  C5, as the code has it. With a registry that loads and a state file that can be
  written, \<open>Delete\<close> returns success whether or not the key has a record, writes the
  encoding of the registry without the key to the state file and changes nothing else;
  and when the loaded registry has no entry under the key \<open><<\<close>, the registry read
  back has no entry at the key and every other entry as before, and \<open>Get\<close> fails with
  the not-found error for the key.
\<close>

theorem Delete_then_Get:
  "load w = Inr s \<Longrightarrow> write_ok w (stPath w) \<Longrightarrow>
     Delete ns dev w =
       (Inr (), w\<lparr>files := (files w)(stPath w := Content (marshal_Storage
          (s\<lparr>Services := map_option (\<lambda>m. m(getFullName ns dev := None)) (Services s)\<rparr>)))\<rparr>) \<and>
     (entries s ''<<'' = None \<longrightarrow>
        (\<exists>s'. load (snd (Delete ns dev w)) = Inr s' \<and>
           entries s' = (entries s)(getFullName ns dev := None)) \<and>
        Get ns dev (snd (Delete ns dev w)) = Inl (Err (ErrNotFound (getFullName ns dev))))"
proof -
  assume ld: "load w = Inr s" and wr: "write_ok w (stPath w)"
  let ?k = "getFullName ns dev"
  let ?s' = "s\<lparr>Services := map_option (\<lambda>m. m(?k := None)) (Services s)\<rparr>"
  have p: "path ?s' = stPath w" using load_path [OF ld] by simp
  have d: "Delete ns dev w = save ?s' w"
    using ld by (simp add: Delete_def Let_def)
  have sv: "save ?s' w = (Inr (), w\<lparr>files := (files w)(stPath w := Content (marshal_Storage ?s'))\<rparr>)"
    by (rule save_at_stPath [OF p wr])
  have written: "Delete ns dev w =
       (Inr (), w\<lparr>files := (files w)(stPath w := Content (marshal_Storage ?s'))\<rparr>)"
    using d sv by simp
  have reread: "(\<exists>s'. load (snd (Delete ns dev w)) = Inr s' \<and> entries s' = (entries s)(?k := None)) \<and>
        Get ns dev (snd (Delete ns dev w)) = Inl (Err (ErrNotFound ?k))"
    if nm: "entries s ''<<'' = None"
  proof -
    have n: "entries ?s' ''<<'' = None" using nm by (simp add: entries_delete)
    have sv': "save ?s' w = (Inr (), snd (Delete ns dev w))" using d sv by simp
    have l: "load (snd (Delete ns dev w)) =
        Inr \<lparr>path = stPath w, Version = (if Version ?s' = [] then version else Version ?s'),
            Services = Some ((entries s)(?k := None))\<rparr>"
      using load_after_save [OF p sv' n] by (simp add: entries_delete)
    then have g: "Get ns dev (snd (Delete ns dev w)) = Inl (Err (ErrNotFound ?k))"
      by (simp add: Get_def Let_def)
    from l g show ?thesis by simp
  qed
  from written reread show ?thesis by blast
qed

theorem Delete_then_Get_witness:
  "fst (Delete ''default'' dev_web world_active) = Inr () \<and>
   Get ''default'' dev_web (snd (Delete ''default'' dev_web world_active)) =
     Inl (Err (ErrNotFound ''default/web/app'')) \<and>
   fst (Delete ''default'' dev_web world_fresh) = Inr () \<and>
   Get ''default'' dev_web (snd (Delete ''default'' dev_web world_fresh)) =
     Inl (Err (ErrNotFound ''default/web/app''))"
proof -
  have n: "entries \<lparr>path = ''/home/u/.cnd/.state'', Version = ''1.0'',
              Services = Some (Map.empty :: string \<rightharpoonup> Service)\<rparr> ''<<'' = None"
    by simp
  note a = Delete_then_Get [OF load_world_active write_ok_world_active, of "''default''" dev_web]
  note b = Delete_then_Get [OF load_world_fresh write_ok_world_fresh, of "''default''" dev_web]
  from a have a1: "fst (Delete ''default'' dev_web world_active) = Inr ()" by simp
  from a active_storage_no_merge
  have a2: "Get ''default'' dev_web (snd (Delete ''default'' dev_web world_active)) =
     Inl (Err (ErrNotFound (getFullName ''default'' dev_web)))" by blast
  from b have b1: "fst (Delete ''default'' dev_web world_fresh) = Inr ()" by simp
  from b n have b2: "Get ''default'' dev_web (snd (Delete ''default'' dev_web world_fresh)) =
     Inl (Err (ErrNotFound (getFullName ''default'' dev_web)))" by blast
  from a1 a2 b1 b2 show ?thesis unfolding key_web by blast
qed

text \<open>
  Against C5 as stated: the state file holds the session and an entry under the quoted
  key \<open>"<<"\<close>. \<open>Delete\<close> succeeds, and the \<open>Get\<close> that follows fails with the
  decoding error, not with the not-found error.
\<close>

theorem Delete_then_Get_merge_key:
  "load world_active_merge_key = Inr active_merge_key_storage \<and>
   fst (Delete ''default'' dev_web world_active_merge_key) = Inr () \<and>
   Get ''default'' dev_web (snd (Delete ''default'' dev_web world_active_merge_key)) =
     Inl (Err ErrUnmarshalStorage)"
proof -
  have b: "fst (Delete ''default'' dev_web world_active_merge_key) = Inr ()"
    by (simp add: Delete_active_merge_key)
  have "load (snd (Delete ''default'' dev_web world_active_merge_key)) = Inl (Err ErrUnmarshalStorage)"
    by (simp add: Delete_active_merge_key load_written active_merge_key_merge)
  then have c: "Get ''default'' dev_web (snd (Delete ''default'' dev_web world_active_merge_key)) =
     Inl (Err ErrUnmarshalStorage)"
    by (simp add: Get_def)
  from load_world_active_merge_key b c show ?thesis by blast
qed

subsection \<open>C6: when session keys are distinct\<close>

text \<open>
  C6, as the code has it. \<open>getFullName\<close> joins its three parts with slashes and
  escapes nothing. When neither namespace and neither deployment name holds a slash, two
  pairs that differ in the namespace, in the deployment name or in the container have
  different keys. Whatever the strings hold, two manifests with the same deployment name
  and different containers have different keys under one namespace.
\<close>

theorem getFullName_distinct:
  "(CHR ''/'' \<notin> set ns1 \<and> CHR ''/'' \<notin> set ns2 \<and>
    CHR ''/'' \<notin> set (Name (Deployment (Swap d1))) \<and>
    CHR ''/'' \<notin> set (Name (Deployment (Swap d2))) \<and>
    (ns1 \<noteq> ns2 \<or> Name (Deployment (Swap d1)) \<noteq> Name (Deployment (Swap d2)) \<or>
     Container (Deployment (Swap d1)) \<noteq> Container (Deployment (Swap d2)))
    \<longrightarrow> getFullName ns1 d1 \<noteq> getFullName ns2 d2) \<and>
   (Name (Deployment (Swap d1)) = Name (Deployment (Swap d2)) \<and>
    Container (Deployment (Swap d1)) \<noteq> Container (Deployment (Swap d2))
    \<longrightarrow> getFullName ns d1 \<noteq> getFullName ns d2)"
proof -
  have inj: "ns1 = ns2 \<and> Name (Deployment (Swap d1)) = Name (Deployment (Swap d2)) \<and>
        Container (Deployment (Swap d1)) = Container (Deployment (Swap d2))"
    if s: "CHR ''/'' \<notin> set ns1" "CHR ''/'' \<notin> set ns2"
      "CHR ''/'' \<notin> set (Name (Deployment (Swap d1)))"
      "CHR ''/'' \<notin> set (Name (Deployment (Swap d2)))"
      and eq: "getFullName ns1 d1 = getFullName ns2 d2"
  proof -
    from eq have "ns1 @ CHR ''/'' # (Name (Deployment (Swap d1)) @ CHR ''/'' # Container (Deployment (Swap d1)))
        = ns2 @ CHR ''/'' # (Name (Deployment (Swap d2)) @ CHR ''/'' # Container (Deployment (Swap d2)))"
      by (simp add: getFullName_def)
    from split_at_slash [OF s(1) s(2) this]
    have n: "ns1 = ns2" and r: "Name (Deployment (Swap d1)) @ CHR ''/'' # Container (Deployment (Swap d1))
        = Name (Deployment (Swap d2)) @ CHR ''/'' # Container (Deployment (Swap d2))"
      by simp_all
    from split_at_slash [OF s(3) s(4) r] n show ?thesis by simp
  qed
  have second: "Name (Deployment (Swap d1)) = Name (Deployment (Swap d2)) \<and>
    Container (Deployment (Swap d1)) \<noteq> Container (Deployment (Swap d2))
    \<longrightarrow> getFullName ns d1 \<noteq> getFullName ns d2"
    by (simp add: getFullName_def)
  from inj second show ?thesis by blast
qed

theorem getFullName_distinct_witness:
  "getFullName ''default'' dev_web \<noteq> getFullName ''staging'' dev_web \<and>
   getFullName ''default'' dev_web \<noteq> getFullName ''default'' dev_web_sidecar"
proof -
  have "getFullName ''default'' dev_web \<noteq> getFullName ''staging'' dev_web"
    using getFullName_distinct [of "''default''" "''staging''" dev_web dev_web]
    by (simp add: dev_web_def)
  moreover have "getFullName ''default'' dev_web \<noteq> getFullName ''default'' dev_web_sidecar"
    using getFullName_distinct [of _ _ dev_web dev_web_sidecar "''default''"]
    by (simp add: dev_web_def dev_web_sidecar_def)
  ultimately show ?thesis by simp
qed

text \<open>
  Against C6 as stated: the namespaces \<open>a\<close> and \<open>a/b\<close> differ, the deployment
  names \<open>b/c\<close> and \<open>c\<close> differ, and the two keys are the same string.
\<close>

theorem getFullName_collision:
  "getFullName ''a'' dev_slash_in_name = getFullName ''a/b'' dev_plain_name \<and>
   ''a'' \<noteq> ''a/b'' \<and>
   Name (Deployment (Swap dev_slash_in_name)) \<noteq> Name (Deployment (Swap dev_plain_name))"
  by (simp add: getFullName_def dev_slash_in_name_def dev_plain_name_def)

subsection \<open>C7: saving and loading again\<close>

text \<open>
  C7, as the code has it. For a registry whose \<open>path\<close> is the state path (every
  registry \<open>load\<close> returns), that has no entry under the key \<open><<\<close>, and a state
  file that can be written, \<open>save\<close> succeeds and \<open>load\<close> then returns a registry
  with exactly the same entries; its version is the saved one when that is non-empty,
  and the constant \<open>1.0\<close> when the saved version is the empty string, which
  \<open>omitempty\<close> leaves out of the file.
\<close>

theorem save_load_roundtrip:
  "path r = stPath w \<Longrightarrow> write_ok w (stPath w) \<Longrightarrow> entries r ''<<'' = None \<Longrightarrow>
     fst (save r w) = Inr () \<and>
     (\<exists>r'. load (snd (save r w)) = Inr r' \<and> entries r' = entries r \<and>
        Version r' = (if Version r = [] then version else Version r))"
proof -
  assume p: "path r = stPath w" and wr: "write_ok w (stPath w)" and nm: "entries r ''<<'' = None"
  have sv: "save r w = (Inr (), w\<lparr>files := (files w)(stPath w := Content (marshal_Storage r))\<rparr>)"
    by (rule save_at_stPath [OF p wr])
  from load_after_save [OF p sv nm] sv show ?thesis by simp
qed

theorem save_load_roundtrip_witness:
  "fst (save active_storage world_fresh) = Inr () \<and>
   map_sum id Version (load (snd (save active_storage world_fresh))) = Inr ''1.0'' \<and>
   map_sum id entries (load (snd (save active_storage world_fresh))) =
     Inr [''default/web/app'' \<mapsto> \<lparr>Folder = ''/src/web'', Syncthing = ''host:1234''\<rparr>]"
proof -
  have p: "path active_storage = stPath world_fresh"
    by (simp add: active_storage_def world_fresh_def)
  from save_load_roundtrip [OF p write_ok_world_fresh active_storage_no_merge] obtain r' where
    ok: "fst (save active_storage world_fresh) = Inr ()" and
    l: "load (snd (save active_storage world_fresh)) = Inr r'" and
    s: "entries r' = entries active_storage" and
    v: "Version r' = (if Version active_storage = [] then version else Version active_storage)"
    by blast
  from v have "Version r' = ''1.0''" by (simp add: active_storage_def)
  moreover from s have "entries r' =
      [''default/web/app'' \<mapsto> \<lparr>Folder = ''/src/web'', Syncthing = ''host:1234''\<rparr>]"
    by (simp add: active_storage_def)
  ultimately show ?thesis using ok l by simp
qed

text \<open>
  Against C7 as stated. A state file with \<open>version: ""\<close> loads as a registry whose
  version is the empty string; saving that registry succeeds, and loading again gives the
  version \<open>1.0\<close>. A state file with an entry under the quoted key \<open>"<<"\<close> loads;
  saving the loaded registry succeeds, and loading again fails with the decoding error.
\<close>

theorem save_load_not_identity:
  "load world_blank_version = Inr blank_version_storage \<and>
   Version blank_version_storage = [] \<and>
   fst (save blank_version_storage world_blank_version) = Inr () \<and>
   map_sum id Version (load (snd (save blank_version_storage world_blank_version))) = Inr ''1.0'' \<and>
   load world_merge_key = Inr merge_key_storage \<and>
   fst (save merge_key_storage world_merge_key) = Inr () \<and>
   load (snd (save merge_key_storage world_merge_key)) = Inl (Err ErrUnmarshalStorage)"
proof -
  have a: "load world_blank_version = Inr blank_version_storage"
    by (simp add: load_def world_blank_version_def world_fresh_def blank_version_storage_def
        unmarshal_Storage_def merge_fails_def)
  have b: "Version blank_version_storage = []" by (simp add: blank_version_storage_def)
  have c: "save blank_version_storage world_blank_version =
      (Inr (), world_blank_version\<lparr>files := (files world_blank_version)
         (stPath world_blank_version := Content (marshal_Storage blank_version_storage))\<rparr>)"
    by (simp add: save_def world_blank_version_def world_fresh_def blank_version_storage_def)
  have d: "map_sum id Version (load (snd (save blank_version_storage world_blank_version))) = Inr ''1.0''"
    by (simp add: c load_written) (simp add: blank_version_storage_def version_def)
  have e: "save merge_key_storage world_merge_key =
      (Inr (), world_merge_key\<lparr>files := (files world_merge_key)
         (stPath world_merge_key := Content (marshal_Storage merge_key_storage))\<rparr>)"
    by (simp add: save_def world_merge_key_def world_fresh_def merge_key_storage_def)
  have f: "load (snd (save merge_key_storage world_merge_key)) = Inl (Err ErrUnmarshalStorage)"
    by (simp add: e load_written) (simp add: merge_key_storage_def)
  from a b c d load_world_merge_key e f show ?thesis by simp
qed

subsection \<open>C8: which path \<open>validate\<close> checks\<close>

text \<open>
  C8 does not hold of \<open>ReadDev\<close>, which validates before it resolves. The manifest
  \<open>/repo/cnd.yml\<close> has the source \<open>./a\<close>, so the resolved source is \<open>/repo/a\<close>.
  Where \<open>/repo/a\<close> is a directory and the working directory has no \<open>a\<close>,
  \<open>ReadDev\<close> fails with the missing-source error; where \<open>/repo/a\<close> does not exist
  and the working directory has a directory \<open>a\<close>, \<open>ReadDev\<close> succeeds and returns
  the source \<open>/repo/a\<close>.
\<close>

theorem ReadDev_validates_unresolved_source:
  "loadDev world_source_beside_manifest (Yaml doc_relative) = Inr dev_relative \<and>
   Source (Mount (Dev_fixPath world_source_beside_manifest dev_relative ''/repo/cnd.yml'')) = ''/repo/a'' \<and>
   stat world_source_beside_manifest ''/repo/a'' = StatInfo True \<and>
   ReadDev world_source_beside_manifest ''/repo/cnd.yml'' = Inl (Err (ErrSourceMissing ''./a'')) \<and>
   stat world_source_in_cwd ''/repo/a'' = StatNotExist \<and>
   map_sum id (\<lambda>d. Source (Mount d)) (ReadDev world_source_in_cwd ''/repo/cnd.yml'') = Inr ''/repo/a''"
proof -
  have fp: "Source (Mount (Dev_fixPath w dev_relative ''/repo/cnd.yml'')) = ''/repo/a''" for w
    by (simp add: Dev_fixPath_source dev_relative_def IsAbs_def Dir_repo_manifest Join_repo_a)
  have a: "stat world_source_beside_manifest ''/repo/a'' = StatInfo True"
    by (simp add: world_source_beside_manifest_def)
  have r0: "readFile world_source_beside_manifest ''/repo/cnd.yml'' = Some (Yaml doc_relative)"
    by (simp add: world_source_beside_manifest_def)
  have v0: "validate world_source_beside_manifest dev_relative = Inl (Err (ErrSourceMissing ''./a''))"
    by (simp add: validate_def world_source_beside_manifest_def dev_relative_def)
  have b: "ReadDev world_source_beside_manifest ''/repo/cnd.yml'' = Inl (Err (ErrSourceMissing ''./a''))"
    by (simp add: ReadDev_def r0 loadDev_doc_relative v0)
  have c: "stat world_source_in_cwd ''/repo/a'' = StatNotExist"
    by (simp add: world_source_in_cwd_def)
  have v: "validate world_source_in_cwd dev_relative = Inr ()"
    by (simp add: validate_def world_source_in_cwd_def dev_relative_def)
  have r: "readFile world_source_in_cwd ''/repo/cnd.yml'' = Some (Yaml doc_relative)"
    by (simp add: world_source_in_cwd_def)
  have d: "map_sum id (\<lambda>d. Source (Mount d)) (ReadDev world_source_in_cwd ''/repo/cnd.yml'') = Inr ''/repo/a''"
    by (simp add: ReadDev_def r loadDev_doc_relative v fp)
  from loadDev_doc_relative fp a b c d show ?thesis by blast
qed

subsection \<open>C9: resolving the source path\<close>

text \<open>
  C9. After \<open>fixPath\<close> of the manifest model, an absolute source is unchanged; a
  relative one is joined to the directory of the manifest path, behind the working
  directory when the manifest path is relative. With \<open>HOME\<close> \<open>/home/u\<close> a manifest
  whose source is \<open>~/x\<close> loads with the source \<open>/home/u/x\<close>, which \<open>fixPath\<close>
  keeps; with the manifest at \<open>/repo/cnd.yml\<close> the source \<open>./a\<close> resolves to
  \<open>/repo/a\<close>.
\<close>

theorem resolve_source_path:
  "Source (Mount (Dev_fixPath w dev p)) =
     (if IsAbs (Source (Mount dev)) then Source (Mount dev)
      else if IsAbs p then Join [Dir p, Source (Mount dev)]
      else Join [case cwd w of None \<Rightarrow> [] | Some d \<Rightarrow> d, Dir p, Source (Mount dev)]) \<and>
   (\<forall>d. doc_source d = Some ''~/x'' \<and> HOME w = ''/home/u'' \<longrightarrow>
      (\<exists>dev'. loadDev w (Yaml d) = Inr dev' \<and> Source (Mount dev') = ''/home/u/x'' \<and>
         Source (Mount (Dev_fixPath w dev' p)) = ''/home/u/x'')) \<and>
   (Source (Mount dev) = ''./a'' \<longrightarrow>
      Source (Mount (Dev_fixPath w dev ''/repo/cnd.yml'')) = ''/repo/a'')"
proof -
  have home: "\<exists>dev'. loadDev w (Yaml d) = Inr dev' \<and> Source (Mount dev') = ''/home/u/x'' \<and>
         Source (Mount (Dev_fixPath w dev' p)) = ''/home/u/x''"
    if "doc_source d = Some ''~/x''" and "HOME w = ''/home/u''" for d
    using that by (simp add: loadDev_def HasPrefix_def Join_home_x Dev_fixPath_source IsAbs_def)
  have rel: "Source (Mount dev) = ''./a'' \<longrightarrow>
      Source (Mount (Dev_fixPath w dev ''/repo/cnd.yml'')) = ''/repo/a''"
    by (simp add: Dev_fixPath_source IsAbs_def Dir_repo_manifest Join_repo_a)
  from Dev_fixPath_source [of w dev p] home rel show ?thesis by blast
qed

theorem resolve_source_path_witness:
  "(\<exists>dev'. loadDev world_fresh (Yaml doc_home) = Inr dev' \<and>
      Source (Mount dev') = ''/home/u/x'' \<and>
      Source (Mount (Dev_fixPath world_fresh dev' ''cnd.yml'')) = ''/home/u/x'') \<and>
   Source (Mount (Dev_fixPath world_fresh dev_relative ''/repo/cnd.yml'')) = ''/repo/a'' \<and>
   Source (Mount (Dev_fixPath world_fresh dev_relative ''sub/cnd.yml'')) = ''/work/sub/a''"
proof -
  note t = resolve_source_path [of world_fresh dev_relative]
  have h: "doc_source doc_home = Some ''~/x'' \<and> HOME world_fresh = ''/home/u''"
    by (simp add: doc_home_def world_fresh_def)
  with t [of "''cnd.yml''"]
  have a: "\<exists>dev'. loadDev world_fresh (Yaml doc_home) = Inr dev' \<and>
      Source (Mount dev') = ''/home/u/x'' \<and>
      Source (Mount (Dev_fixPath world_fresh dev' ''cnd.yml'')) = ''/home/u/x''"
    by blast
  have s: "Source (Mount dev_relative) = ''./a''" by (simp add: dev_relative_def)
  with t [of "''/repo/cnd.yml''"]
  have b: "Source (Mount (Dev_fixPath world_fresh dev_relative ''/repo/cnd.yml'')) = ''/repo/a''"
    by blast
  from t [of "''sub/cnd.yml''"]
  have "Source (Mount (Dev_fixPath world_fresh dev_relative ''sub/cnd.yml'')) =
      Join [''/work'', Dir ''sub/cnd.yml'', ''./a'']"
    by (simp add: s IsAbs_def world_fresh_def)
  also have "\<dots> = ''/work/sub/a''"
    by (simp add: Join_def Dir_def Clean_def IsAbs_def)
  finally have c: "Source (Mount (Dev_fixPath world_fresh dev_relative ''sub/cnd.yml'')) = ''/work/sub/a''" .
  from a b c show ?thesis by blast
qed

subsection \<open>C10: \<open>validate\<close> when \<open>os.Stat\<close> fails otherwise\<close>

text \<open>
  C10 does not hold: where \<open>os.Stat\<close> of the source fails with an error that is not
  a non-existence, \<open>validate\<close> returns no error; it goes on to \<open>file.Mode()\<close> on the
  nil file-info and panics, and so does \<open>ReadDev\<close>.
\<close>

theorem validate_panics_on_stat_error:
  "stat world_stat_denied (Source (Mount dev_relative)) = StatFailed \<and>
   validate world_stat_denied dev_relative = Inl Panic \<and>
   ReadDev world_stat_denied ''/repo/cnd.yml'' = Inl Panic"
proof -
  have s: "stat world_stat_denied p = StatFailed" for p
    by (simp add: world_stat_denied_def)
  have v: "validate world_stat_denied dev_relative = Inl Panic"
    by (simp add: validate_def s)
  have r: "readFile world_stat_denied ''/repo/cnd.yml'' = Some (Yaml doc_relative)"
    by (simp add: world_stat_denied_def)
  have "ReadDev world_stat_denied ''/repo/cnd.yml'' = Inl Panic"
    by (simp add: ReadDev_def r loadDev_doc_relative v)
  with s v show ?thesis by blast
qed

end
